theory Spec2Isabelle
  imports
    Complex_Main
    "HOL-Library.Product_Lexorder"
    "HOL-Library.Char_ord"
    "HOL-Library.List_Lexorder"
    "HOL-Library.Sublist"
begin

section \<open>Data model\<close>

text \<open>
  The analytics helpers of \<^verbatim>\<open>src/dags/helpers.py\<close> work on pandas DataFrames.
  A DataFrame is modelled by its rows, one record per transaction with the columns the
  helpers read, plus the two columns \<^verbatim>\<open>cohort\<close> and \<^verbatim>\<open>period\<close> that
  \<^verbatim>\<open>cohort_retention_analysis\<close> assigns (\<open>None\<close>: the column does not exist).

  Scope of the model: the numbers of a column are real numbers, except that the result of
  a division \<open>0 / 0\<close> and the quantile of an empty column are the value NaN, written
  \<open>None\<close>; the rounding of doubles is not modelled, and nothing below is claimed where a
  rounded result decides which rows or segments come out. For \<^verbatim>\<open>customer_segmentation\<close> a
  second formulation leaves the arithmetic of the doubles open, infinities and NaN included.
  Every cell is present (the pipeline drops missing values before it calls the helpers);
  the columns of a transaction all exist, with the types the pipeline gives them;
  \<^verbatim>\<open>transaction_date\<close> already holds timestamps, so \<^verbatim>\<open>pd.to_datetime\<close> returns the
  column as it is. A calendar date is the triple (year, month, day), ordered
  lexicographically.
\<close>

datatype error = KeyError | TypeError | ValueError

type_synonym date = "int \<times> nat \<times> nat"

record txn =
  user_id :: nat
  item_id :: nat
  item_category :: string
  item_price :: real
  quantity :: int
  transaction_date :: date
  total_amount :: real

record dataframe =
  rows :: "txn list"
  col_cohort :: "int list option"
  col_period :: "int list option"

text \<open>
  \<^verbatim>\<open>df[column]\<close>: a numeric column as a list of numbers, any other column as \<open>Others\<close>,
  and \<^verbatim>\<open>KeyError\<close> for a name that is not a column.
\<close>

datatype series = Floats "real list" | Others

definition getitem :: "dataframe \<Rightarrow> string \<Rightarrow> error + series" where
  "getitem df column =
     (if column = ''user_id'' then Inr (Floats (map (\<lambda>r. real (user_id r)) (rows df)))
      else if column = ''item_id'' then Inr (Floats (map (\<lambda>r. real (item_id r)) (rows df)))
      else if column = ''item_category'' then Inr Others
      else if column = ''item_price'' then Inr (Floats (map item_price (rows df)))
      else if column = ''quantity'' then Inr (Floats (map (\<lambda>r. real_of_int (quantity r)) (rows df)))
      else if column = ''transaction_date'' then Inr Others
      else if column = ''total_amount'' then Inr (Floats (map total_amount (rows df)))
      else if column = ''cohort'' then
        (case col_cohort df of None \<Rightarrow> Inl KeyError | Some cs \<Rightarrow> Inr Others)
      else if column = ''period'' then
        (case col_period df of None \<Rightarrow> Inl KeyError | Some ps \<Rightarrow> Inr (Floats (map real_of_int ps)))
      else Inl KeyError)"

text \<open>\<^verbatim>\<open>df[mask]\<close>: the rows, of every column, at the positions where the mask is true.\<close>

definition mask_list :: "bool list \<Rightarrow> 'a list \<Rightarrow> 'a list" where
  "mask_list keep xs = map fst (filter snd (zip xs keep))"

definition df_mask :: "dataframe \<Rightarrow> bool list \<Rightarrow> dataframe" where
  "df_mask df keep =
     \<lparr>rows = mask_list keep (rows df),
      col_cohort = map_option (mask_list keep) (col_cohort df),
      col_period = map_option (mask_list keep) (col_period df)\<rparr>"

section \<open>remove_outliers_zscore\<close>

text \<open>
  \<^verbatim>\<open>scipy.stats.zscore\<close> with its defaults: the mean and the population standard
  deviation (\<^verbatim>\<open>ddof=0\<close>) of the whole column, and \<open>(x - mean) / std\<close> for each cell. On a
  column whose standard deviation is 0 every score is \<open>0 / 0\<close>, that is NaN.
\<close>

definition np_mean :: "real list \<Rightarrow> real" where
  "np_mean xs = sum_list xs / real (length xs)"

definition np_std :: "real list \<Rightarrow> real" where
  "np_std xs = sqrt (sum_list (map (\<lambda>x. (x - np_mean xs)\<^sup>2) xs) / real (length xs))"

definition zscore :: "real list \<Rightarrow> real option list" where
  "zscore xs =
     map (\<lambda>x. if np_std xs = 0 then None else Some ((x - np_mean xs) / np_std xs)) xs"

text \<open>\<^verbatim>\<open>abs(z) <= threshold\<close>; a comparison with NaN is false.\<close>

definition abs_le :: "real option \<Rightarrow> real \<Rightarrow> bool" where
  "abs_le z threshold = (case z of None \<Rightarrow> False | Some v \<Rightarrow> \<bar>v\<bar> \<le> threshold)"

text \<open>
  Each helper is a function from the caller's DataFrame to the pair of that DataFrame
  after the call and the value returned (or the exception raised).
\<close>

definition remove_outliers_zscore ::
  "dataframe \<Rightarrow> string \<Rightarrow> real \<Rightarrow> dataframe \<times> (error + dataframe)" where
  "remove_outliers_zscore df column threshold =
     (df,
      case getitem df column of
        Inl e \<Rightarrow> Inl e
      | Inr Others \<Rightarrow> Inl TypeError
      | Inr (Floats xs) \<Rightarrow>
          (let z_scores = zscore xs
           in Inr (df_mask df (map (\<lambda>z. abs_le z threshold) z_scores))))"

section \<open>top_categories\<close>

text \<open>
  \<^verbatim>\<open>groupby(key)['total_amount'].sum().reset_index()\<close>: one row per distinct key, in
  ascending order of the key, with the sum of \<^verbatim>\<open>total_amount\<close> over the rows of that key.
\<close>

definition unique_sorted :: "'k::linorder list \<Rightarrow> 'k list" where
  "unique_sorted ks = sort (remdups ks)"

definition groupby_sum :: "(txn \<Rightarrow> 'k::linorder) \<Rightarrow> txn list \<Rightarrow> ('k \<times> real) list" where
  "groupby_sum key rs =
     map (\<lambda>k. (k, sum_list (map total_amount (filter (\<lambda>r. key r = k) rs))))
       (unique_sorted (map key rs))"

text \<open>
  \<^verbatim>\<open>sort_values(by='total_amount', ascending=False)\<close>. pandas leaves the order of equal
  sums open; the model keeps them in the order they had.
\<close>

definition sort_values_desc :: "('k \<times> real) list \<Rightarrow> ('k \<times> real) list" where
  "sort_values_desc xs = sort_key (\<lambda>c. - snd c) xs"

text \<open>\<^verbatim>\<open>head(n)\<close>: the first \<open>n\<close> rows; for a negative \<open>n\<close>, all rows but the last \<open>|n|\<close>.\<close>

definition head :: "int \<Rightarrow> 'a list \<Rightarrow> 'a list" where
  "head n xs = (if 0 \<le> n then take (nat n) xs else take (length xs - nat (- n)) xs)"

definition top_categories :: "dataframe \<Rightarrow> int \<Rightarrow> dataframe \<times> (error + (string \<times> real) list)" where
  "top_categories data top_n =
     (let category_sales = groupby_sum item_category (rows data);
          top_categories = head top_n (sort_values_desc category_sales)
      in (data, Inr top_categories))"

section \<open>customer_segmentation\<close>

text \<open>
  \<^verbatim>\<open>Series.quantile(q)\<close> with linear interpolation: on the sorted values, the position
  \<open>(n - 1) * q\<close> is split into its integer part \<open>lo\<close> and its fraction, and the result
  interpolates between the values at \<open>lo\<close> and \<open>lo + 1\<close>. The quantile of an empty column
  is NaN. The source asks for the quantiles 0.33 and 0.66 only; \<open>q\<close> is taken between 0 and 1.
\<close>

definition quantile :: "real list \<Rightarrow> real \<Rightarrow> real option" where
  "quantile xs q =
     (if xs = [] then None
      else
        (let s = sort xs;
             h = real (length xs - 1) * q;
             lo = nat \<lfloor>h\<rfloor>;
             hi = min (lo + 1) (length xs - 1)
         in Some (s ! lo + (s ! hi - s ! lo) * (h - real lo))))"

text \<open>Comparisons of a cell with a threshold that may be NaN.\<close>

definition le_nan :: "real \<Rightarrow> real option \<Rightarrow> bool" where
  "le_nan x t = (case t of None \<Rightarrow> False | Some v \<Rightarrow> x \<le> v)"

definition gt_nan :: "real \<Rightarrow> real option \<Rightarrow> bool" where
  "gt_nan x t = (case t of None \<Rightarrow> False | Some v \<Rightarrow> x > v)"

text \<open>
  \<^verbatim>\<open>np.select(conditions, choices, default)\<close> at one row: the choice of the first
  condition that holds, and the default when none does.
\<close>

fun np_select :: "bool list \<Rightarrow> 'a list \<Rightarrow> 'a \<Rightarrow> 'a" where
  "np_select (c # cs) (x # xs) d = (if c then x else np_select cs xs d)"
| "np_select _ _ d = d"

definition conditions :: "real option \<Rightarrow> real option \<Rightarrow> real \<Rightarrow> bool list" where
  "conditions low_threshold high_threshold x =
     [le_nan x low_threshold,
      gt_nan x low_threshold \<and> le_nan x high_threshold,
      gt_nan x high_threshold]"

definition choices :: "string list" where
  "choices = [''low_spenders'', ''medium_spenders'', ''high_spenders'']"

text \<open>
  A row of the returned table. The columns \<^verbatim>\<open>user_id\<close> and \<^verbatim>\<open>total_amount\<close> carry
  the prefix \<open>us_\<close> (for \<^verbatim>\<open>user_spending\<close>) to tell them from those of a transaction.
\<close>

record user_spending =
  us_user_id :: nat
  us_total_amount :: real
  segment :: string

definition customer_segmentation :: "dataframe \<Rightarrow> dataframe \<times> (error + user_spending list)" where
  "customer_segmentation data =
     (let user_spending = groupby_sum user_id (rows data);
          low_threshold = quantile (map snd user_spending) (33 / 100);
          high_threshold = quantile (map snd user_spending) (66 / 100)
      in (data,
          Inr (map (\<lambda>(u, x).
                 \<lparr>us_user_id = u, us_total_amount = x,
                  segment = np_select (conditions low_threshold high_threshold x) choices
                              ''low_spenders''\<rparr>)
               user_spending)))"

section \<open>cohort_retention_analysis\<close>

text \<open>
  \<^verbatim>\<open>dt.to_period(time_period)\<close> maps a timestamp to its calendar bucket, here the
  number of the bucket counted from the one of 1 January 1970; the difference of two buckets
  of one kind is the number of periods between them (the \<^verbatim>\<open>.n\<close> of the source). The table
  covers the daily, weekly (weeks from Monday to Sunday), monthly, quarterly and yearly
  aliases. pandas raises \<^verbatim>\<open>ValueError\<close> for a string that is no alias; it also knows
  aliases finer than a day, multiples and anchored variants, which are outside this table.
  The lemmas on \<open>cohort_retention\<close> hold for any bucketing function.
\<close>

definition day_ordinal :: "date \<Rightarrow> int" where
  "day_ordinal = (\<lambda>(y, m, d).
     (let y' = (if m \<le> 2 then y - 1 else y);
          era = y' div 400;
          yoe = y' - era * 400;
          doy = (153 * (int m + (if m > 2 then - 3 else 9)) + 2) div 5 + int d - 1;
          doe = yoe * 365 + yoe div 4 - yoe div 100 + doy
      in era * 146097 + doe - 719468))"

definition week_ordinal :: "date \<Rightarrow> int" where
  "week_ordinal dt = (day_ordinal dt + 3) div 7"

definition month_ordinal :: "date \<Rightarrow> int" where
  "month_ordinal = (\<lambda>(y, m, d). (y - 1970) * 12 + (int m - 1))"

definition quarter_ordinal :: "date \<Rightarrow> int" where
  "quarter_ordinal = (\<lambda>(y, m, d). (y - 1970) * 4 + (int m - 1) div 3)"

definition year_ordinal :: "date \<Rightarrow> int" where
  "year_ordinal = (\<lambda>(y, m, d). y - 1970)"

definition to_period :: "string \<Rightarrow> (date \<Rightarrow> int) option" where
  "to_period time_period =
     (if time_period = ''D'' then Some day_ordinal
      else if time_period = ''W'' then Some week_ordinal
      else if time_period = ''M'' then Some month_ordinal
      else if time_period = ''Q'' then Some quarter_ordinal
      else if time_period = ''Y'' then Some year_ordinal
      else None)"

text \<open>
  \<^verbatim>\<open>groupby('user_id')['transaction_date'].transform('min')\<close> at a row of user \<open>u\<close>: the
  earliest date among the rows of \<open>u\<close>. It is only taken for the user of a row of the table,
  so the dates it ranges over are never empty.
\<close>

definition first_purchase :: "txn list \<Rightarrow> nat \<Rightarrow> date" where
  "first_purchase rs u = min_list (map transaction_date (filter (\<lambda>r. user_id r = u) rs))"

text \<open>\<^verbatim>\<open>nunique()\<close>: the number of distinct values.\<close>

definition nunique :: "'a list \<Rightarrow> nat" where
  "nunique xs = length (remdups xs)"

text \<open>
  \<^verbatim>\<open>groupby(['cohort', 'period', 'user_id']).size()\<close>: one row per distinct triple, in
  ascending order, with the number of transactions of that triple.
\<close>

definition groupby_size :: "'k::linorder list \<Rightarrow> ('k \<times> nat) list" where
  "groupby_size ks = map (\<lambda>k. (k, length (filter (\<lambda>k'. k' = k) ks))) (unique_sorted ks)"

text \<open>
  \<^verbatim>\<open>pd.merge(retained_users, cohort_size, on='cohort')\<close>: the inner join, in the order of
  the left table.
\<close>

definition merge_on_cohort ::
  "((int \<times> int) \<times> nat) list \<Rightarrow> (int \<times> nat) list \<Rightarrow> (int \<times> int \<times> nat \<times> nat) list" where
  "merge_on_cohort left right =
     concat (map (\<lambda>((c, p), ru).
                map (\<lambda>(c', cs). (c, p, ru, cs)) (filter (\<lambda>(c', cs). c' = c) right))
             left)"

record retention =
  cohort :: int
  period :: int
  retained_users :: nat
  cohort_size :: nat
  retention_rate :: real

text \<open>
  The body of \<^verbatim>\<open>cohort_retention_analysis\<close> for a bucketing function \<open>b\<close>. It assigns
  the columns \<^verbatim>\<open>cohort\<close> and \<^verbatim>\<open>period\<close> of the DataFrame it was given.
\<close>

definition cohort_retention :: "(date \<Rightarrow> int) \<Rightarrow> dataframe \<Rightarrow> dataframe \<times> retention list" where
  "cohort_retention b df =
     (let rs = rows df;
          cohort_column = map (\<lambda>r. b (first_purchase rs (user_id r))) rs;
          period_column = map (\<lambda>r. b (transaction_date r) - b (first_purchase rs (user_id r))) rs;
          data = df\<lparr>col_cohort := Some cohort_column, col_period := Some period_column\<rparr>;
          cohort_data =
            groupby_size (zip cohort_column (zip period_column (map user_id rs)));
          cohort_size =
            map (\<lambda>c. (c, nunique (map (\<lambda>((c', p, u), n). u)
                                   (filter (\<lambda>((c', p, u), n). c' = c) cohort_data))))
              (unique_sorted (map (\<lambda>((c, p, u), n). c) cohort_data));
          retained_users =
            map (\<lambda>k. (k, nunique (map (\<lambda>((c', p, u), n). u)
                                   (filter (\<lambda>((c', p, u), n). (c', p) = k) cohort_data))))
              (unique_sorted (map (\<lambda>((c, p, u), n). (c, p)) cohort_data));
          retention = merge_on_cohort retained_users cohort_size
      in (data,
          map (\<lambda>(c, p, ru, cs).
                 \<lparr>cohort = c, period = p, retained_users = ru, cohort_size = cs,
                  retention_rate = real ru / real cs * 100\<rparr>)
            retention))"

definition cohort_retention_analysis ::
  "dataframe \<Rightarrow> string \<Rightarrow> dataframe \<times> (error + retention list)" where
  "cohort_retention_analysis data time_period =
     (case to_period time_period of
        None \<Rightarrow> (data, Inl ValueError)
      | Some b \<Rightarrow> (let (data', retention) = cohort_retention b data in (data', Inr retention)))"

section \<open>The outlier filter in the words of the specification\<close>



section \<open>customer_segmentation over doubles\<close>

text \<open>
  The numbers of the \<^verbatim>\<open>total_amount\<close> column are doubles. What
  \<^verbatim>\<open>customer_segmentation\<close> does with them is kept apart from how a double behaves: the
  arithmetic is a parameter, made of the double a cell holds, the sum of a group
  (\<^verbatim>\<open>.sum()\<close>), the quantile of a column (\<^verbatim>\<open>.quantile(q)\<close>) and the comparisons \<^verbatim>\<open><=\<close>
  and \<^verbatim>\<open>>\<close>.
\<close>

record 'a arith =
  cell :: "real \<Rightarrow> 'a"
  series_sum :: "'a list \<Rightarrow> 'a"
  series_quantile :: "'a list \<Rightarrow> real \<Rightarrow> 'a"
  fle :: "'a \<Rightarrow> 'a \<Rightarrow> bool"
  fgt :: "'a \<Rightarrow> 'a \<Rightarrow> bool"

definition groupby_sum_with ::
  "'a arith \<Rightarrow> (txn \<Rightarrow> 'k::linorder) \<Rightarrow> txn list \<Rightarrow> ('k \<times> 'a) list" where
  "groupby_sum_with A key rs =
     map (\<lambda>k. (k, series_sum A (map (\<lambda>r. cell A (total_amount r)) (filter (\<lambda>r. key r = k) rs))))
       (unique_sorted (map key rs))"

definition conditions_with :: "'a arith \<Rightarrow> 'a \<Rightarrow> 'a \<Rightarrow> 'a \<Rightarrow> bool list" where
  "conditions_with A low_threshold high_threshold x =
     [fle A x low_threshold,
      fgt A x low_threshold \<and> fle A x high_threshold,
      fgt A x high_threshold]"

record 'a spending =
  sp_user_id :: nat
  sp_total_amount :: 'a
  sp_segment :: string

definition customer_segmentation_with ::
  "'a arith \<Rightarrow> dataframe \<Rightarrow> dataframe \<times> (error + 'a spending list)" where
  "customer_segmentation_with A data =
     (let user_spending = groupby_sum_with A user_id (rows data);
          low_threshold = series_quantile A (map snd user_spending) (33 / 100);
          high_threshold = series_quantile A (map snd user_spending) (66 / 100)
      in (data,
          Inr (map (\<lambda>(u, x).
                 \<lparr>sp_user_id = u, sp_total_amount = x,
                  sp_segment = np_select (conditions_with A low_threshold high_threshold x)
                                 choices ''low_spenders''\<rparr>)
               user_spending)))"

text \<open>
  The arithmetic of the sections above: real numbers, with \<open>None\<close> for NaN.
\<close>

definition real_arith :: "real option arith" where
  "real_arith =
     \<lparr>cell = Some,
      series_sum = (\<lambda>xs. Some (sum_list (map the xs))),
      series_quantile = (\<lambda>xs q. quantile (map the xs) q),
      fle = (\<lambda>x t. case x of None \<Rightarrow> False | Some v \<Rightarrow> le_nan v t),
      fgt = (\<lambda>x t. case x of None \<Rightarrow> False | Some v \<Rightarrow> gt_nan v t)\<rparr>"

text \<open>
  An arithmetic with the values a double has beside the finite ones: the two infinities and
  NaN. A finite result beyond the largest double overflows to an infinity; the difference
  of two equal infinities and the product of an infinity with 0 are NaN; NaN is neither
  below nor above anything. Rounding of finite results is left out.
\<close>

datatype dbl = Fin real | PInf | NInf | NaN

definition max_double :: real where
  "max_double = (2 - 1 / 2 ^ 52) * 2 ^ 1023"

definition overflow :: "real \<Rightarrow> dbl" where
  "overflow x = (if x > max_double then PInf else if x < - max_double then NInf else Fin x)"

definition dbl_add :: "dbl \<Rightarrow> dbl \<Rightarrow> dbl" where
  "dbl_add x y =
     (case (x, y) of
        (NaN, _) \<Rightarrow> NaN
      | (_, NaN) \<Rightarrow> NaN
      | (PInf, NInf) \<Rightarrow> NaN
      | (NInf, PInf) \<Rightarrow> NaN
      | (PInf, _) \<Rightarrow> PInf
      | (_, PInf) \<Rightarrow> PInf
      | (NInf, _) \<Rightarrow> NInf
      | (_, NInf) \<Rightarrow> NInf
      | (Fin a, Fin b) \<Rightarrow> overflow (a + b))"

definition dbl_neg :: "dbl \<Rightarrow> dbl" where
  "dbl_neg x = (case x of Fin a \<Rightarrow> Fin (- a) | PInf \<Rightarrow> NInf | NInf \<Rightarrow> PInf | NaN \<Rightarrow> NaN)"

definition dbl_sub :: "dbl \<Rightarrow> dbl \<Rightarrow> dbl" where
  "dbl_sub a b = dbl_add a (dbl_neg b)"

text \<open>The product with a finite factor.\<close>

definition dbl_scale :: "dbl \<Rightarrow> real \<Rightarrow> dbl" where
  "dbl_scale x t =
     (case x of
        Fin a \<Rightarrow> overflow (a * t)
      | PInf \<Rightarrow> (if t = 0 then NaN else if 0 < t then PInf else NInf)
      | NInf \<Rightarrow> (if t = 0 then NaN else if 0 < t then NInf else PInf)
      | NaN \<Rightarrow> NaN)"

definition dbl_le :: "dbl \<Rightarrow> dbl \<Rightarrow> bool" where
  "dbl_le x y =
     (case (x, y) of
        (NaN, _) \<Rightarrow> False
      | (_, NaN) \<Rightarrow> False
      | (NInf, _) \<Rightarrow> True
      | (_, PInf) \<Rightarrow> True
      | (Fin a, Fin b) \<Rightarrow> a \<le> b
      | (_, _) \<Rightarrow> False)"

definition dbl_lt :: "dbl \<Rightarrow> dbl \<Rightarrow> bool" where
  "dbl_lt x y =
     (case (x, y) of
        (NaN, _) \<Rightarrow> False
      | (_, NaN) \<Rightarrow> False
      | (Fin a, Fin b) \<Rightarrow> a < b
      | (NInf, NInf) \<Rightarrow> False
      | (NInf, _) \<Rightarrow> True
      | (PInf, _) \<Rightarrow> False
      | (Fin a, PInf) \<Rightarrow> True
      | (Fin a, NInf) \<Rightarrow> False)"

text \<open>The position of a double in sorted order; NaN comes last.\<close>

definition dbl_key :: "dbl \<Rightarrow> nat \<times> real" where
  "dbl_key x = (case x of NInf \<Rightarrow> (0, 0) | Fin a \<Rightarrow> (1, a) | PInf \<Rightarrow> (2, 0) | NaN \<Rightarrow> (3, 0))"

text \<open>
  \<^verbatim>\<open>Series.quantile(q)\<close> on doubles: NaN cells are left out, and the two neighbours \<open>a\<close> and
  \<open>b\<close> of the position are interpolated as numpy does it, \<open>a + (b - a) * g\<close> for a fraction
  \<open>g\<close> below one half and \<open>b - (b - a) * (1 - g)\<close> from one half on.
\<close>

definition dbl_quantile :: "dbl list \<Rightarrow> real \<Rightarrow> dbl" where
  "dbl_quantile xs q =
     (let ys = filter (\<lambda>x. x \<noteq> NaN) xs
      in if ys = [] then NaN
         else
           (let s = sort_key dbl_key ys;
                h = real (length ys - 1) * q;
                lo = nat \<lfloor>h\<rfloor>;
                hi = min (lo + 1) (length ys - 1);
                g = h - real lo;
                a = s ! lo;
                b = s ! hi
            in if g < 1 / 2 then dbl_add a (dbl_scale (dbl_sub b a) g)
               else dbl_sub b (dbl_scale (dbl_sub b a) (1 - g))))"

definition dbl_arith :: "dbl arith" where
  "dbl_arith =
     \<lparr>cell = overflow,
      series_sum = (\<lambda>xs. foldl dbl_add (Fin 0) xs),
      series_quantile = dbl_quantile,
      fle = dbl_le,
      fgt = (\<lambda>x t. dbl_lt t x)\<rparr>"

section \<open>The helpers on a heap\<close>

text \<open>
  Python passes a DataFrame by reference. To tell an assignment into the caller's table from
  the making of a new table, the tables live in a heap, a list of objects addressed by their
  position: \<open>new_object\<close> appends an object and returns its reference, \<open>assign\<close> replaces the
  object at a reference (an assignment of a column, \<^verbatim>\<open>frame[name] = values\<close>). An object is
  a table of transactions or one of the tables the helpers build: category sums, user
  spending with its \<^verbatim>\<open>segment\<close> column once assigned, retention records with their
  \<^verbatim>\<open>retention_rate\<close> column once assigned.
\<close>

datatype object =
    Table dataframe
  | Categories "(string \<times> real) list"
  | Spending "(nat \<times> real) list" "string list option"
  | Retention "(int \<times> int \<times> nat \<times> nat) list" "real list option"

type_synonym heap = "object list"

definition lookup :: "heap \<Rightarrow> nat \<Rightarrow> object option" where
  "lookup h r = (if r < length h then Some (h ! r) else None)"

definition new_object :: "heap \<Rightarrow> object \<Rightarrow> heap \<times> nat" where
  "new_object h obj = (h @ [obj], length h)"

definition assign :: "heap \<Rightarrow> nat \<Rightarrow> object \<Rightarrow> heap" where
  "assign h r obj = h[r := obj]"

text \<open>\<^verbatim>\<open>pd.to_datetime\<close> of a timestamp is that timestamp.\<close>

definition to_datetime :: "date \<Rightarrow> date" where
  "to_datetime d = d"

text \<open>
  The four helpers on the heap, statement by statement: \<^verbatim>\<open>df[mask]\<close>,
  \<^verbatim>\<open>groupby(...).sum().reset_index()\<close>, \<^verbatim>\<open>sort_values(...).head(n)\<close> and \<^verbatim>\<open>pd.merge\<close> make new
  tables; \<^verbatim>\<open>user_spending['segment'] = ...\<close> and \<^verbatim>\<open>retention['retention_rate'] = ...\<close> assign
  into tables the helper has made; \<^verbatim>\<open>data['transaction_date'] = ...\<close>, \<^verbatim>\<open>data['cohort'] = ...\<close>
  and \<^verbatim>\<open>data['period'] = ...\<close> assign into the table the caller passed. The values are those
  of the functions above.
\<close>

definition remove_outliers_zscore_on ::
  "heap \<Rightarrow> nat \<Rightarrow> string \<Rightarrow> real \<Rightarrow> heap \<times> (error + nat)" where
  "remove_outliers_zscore_on h df column threshold =
     (case lookup h df of
        Some (Table d) \<Rightarrow>
          (case getitem d column of
             Inl e \<Rightarrow> (h, Inl e)
           | Inr Others \<Rightarrow> (h, Inl TypeError)
           | Inr (Floats xs) \<Rightarrow>
               (let z_scores = zscore xs;
                    (h', out) = new_object h (Table (df_mask d (map (\<lambda>z. abs_le z threshold) z_scores)))
                in (h', Inr out)))
      | _ \<Rightarrow> (h, Inl TypeError))"

definition top_categories_on :: "heap \<Rightarrow> nat \<Rightarrow> int \<Rightarrow> heap \<times> (error + nat)" where
  "top_categories_on h data top_n =
     (case lookup h data of
        Some (Table d) \<Rightarrow>
          (let (h1, category_sales) = new_object h (Categories (groupby_sum item_category (rows d)));
               (h2, top_categories) =
                 new_object h1
                   (Categories (head top_n (sort_values_desc (groupby_sum item_category (rows d)))))
           in (h2, Inr top_categories))
      | _ \<Rightarrow> (h, Inl TypeError))"

definition customer_segmentation_on :: "heap \<Rightarrow> nat \<Rightarrow> heap \<times> (error + nat)" where
  "customer_segmentation_on h data =
     (case lookup h data of
        Some (Table d) \<Rightarrow>
          (let totals = groupby_sum user_id (rows d);
               (h1, user_spending) = new_object h (Spending totals None);
               low_threshold = quantile (map snd totals) (33 / 100);
               high_threshold = quantile (map snd totals) (66 / 100);
               h2 = assign h1 user_spending
                      (Spending totals
                         (Some (map (\<lambda>(u, x).
                                   np_select (conditions low_threshold high_threshold x) choices
                                     ''low_spenders'')
                                 totals)))
           in (h2, Inr user_spending))
      | _ \<Rightarrow> (h, Inl TypeError))"

definition cohort_retention_analysis_on ::
  "heap \<Rightarrow> nat \<Rightarrow> string \<Rightarrow> heap \<times> (error + nat)" where
  "cohort_retention_analysis_on h data time_period =
     (case lookup h data of
        Some (Table d) \<Rightarrow>
          (let d1 = d\<lparr>rows := map (\<lambda>r. r\<lparr>transaction_date := to_datetime (transaction_date r)\<rparr>)
                                (rows d)\<rparr>;
               h1 = assign h data (Table d1)
           in case to_period time_period of
                None \<Rightarrow> (h1, Inl ValueError)
              | Some b \<Rightarrow>
                  (let (d3, records) = cohort_retention b d1;
                       h3 = assign h1 data (Table d3);
                       merged = map (\<lambda>r. (cohort r, period r, retained_users r, cohort_size r))
                                  records;
                       (h4, retention) = new_object h3 (Retention merged None);
                       h5 = assign h4 retention
                              (Retention merged (Some (map retention_rate records)))
                   in (h5, Inr retention)))
      | _ \<Rightarrow> (h, Inl TypeError))"

section \<open>Sample tables\<close>

text \<open>
  A row with the derived column \<^verbatim>\<open>total_amount = item_price * quantity\<close>, as
  \<^verbatim>\<open>transform_data\<close> attaches it before the analyses run.
\<close>

definition transaction :: "nat \<Rightarrow> string \<Rightarrow> real \<Rightarrow> int \<Rightarrow> date \<Rightarrow> txn" where
  "transaction u c p q d =
     \<lparr>user_id = u, item_id = 0, item_category = c, item_price = p, quantity = q,
      transaction_date = d, total_amount = p * real_of_int q\<rparr>"

definition constant_prices :: dataframe where
  "constant_prices =
     \<lparr>rows = [transaction 1 ''a'' 5 1 (2021, 1, 5), transaction 2 ''b'' 5 2 (2021, 1, 20)],
      col_cohort = None, col_period = None\<rparr>"

definition sample_sales :: dataframe where
  "sample_sales =
     \<lparr>rows = [transaction 1 ''a'' 5 1 (2021, 1, 5), transaction 2 ''b'' 5 2 (2021, 1, 20),
              transaction 1 ''a'' 7 1 (2021, 2, 10)],
      col_cohort = None, col_period = None\<rparr>"

definition empty_table :: dataframe where
  "empty_table = \<lparr>rows = [], col_cohort = None, col_period = None\<rparr>"

text \<open>
  The (cohort, period, user_id) triples of the rows, as \<^verbatim>\<open>cohort_retention_analysis\<close>
  groups them; used to state what the analysis returns.
\<close>

definition cohort_keys :: "(date \<Rightarrow> int) \<Rightarrow> txn list \<Rightarrow> (int \<times> int \<times> nat) list" where
  "cohort_keys b rs =
     map (\<lambda>r. (b (first_purchase rs (user_id r)),
               b (transaction_date r) - b (first_purchase rs (user_id r)),
               user_id r)) rs"

definition same_month :: dataframe where
  "same_month =
     \<lparr>rows = [transaction 1 ''a'' 5 1 (2021, 1, 5), transaction 2 ''b'' 5 2 (2021, 1, 20)],
      col_cohort = None, col_period = None\<rparr>"

definition two_months :: dataframe where
  "two_months =
     \<lparr>rows = [transaction 1 ''a'' 5 1 (2021, 1, 5), transaction 2 ''b'' 5 2 (2021, 2, 20)],
      col_cohort = None, col_period = None\<rparr>"


text \<open>
  Two users with two purchases each, every one of the price \<open>2 ^ 1023\<close>, a double: the sum
  of two of them is beyond the doubles.
\<close>

definition huge :: real where
  "huge = 2 ^ 1023"

definition big_spenders :: dataframe where
  "big_spenders =
     \<lparr>rows = [transaction 1 ''a'' huge 1 (2021, 1, 5), transaction 1 ''a'' huge 1 (2021, 1, 6),
              transaction 2 ''b'' huge 1 (2021, 1, 20), transaction 2 ''b'' huge 1 (2021, 1, 21)],
      col_cohort = None, col_period = None\<rparr>"

section \<open>Boolean masks\<close>

lemma mask_list_subseq: "subseq (mask_list gs xs) xs"
  unfolding mask_list_def
proof (induction xs arbitrary: gs)
  case Nil
  show ?case by simp
next
  case (Cons x xs)
  show ?case
  proof (cases gs)
    case Nil
    then show ?thesis by simp
  next
    case (Cons g gs')
    then show ?thesis using Cons.IH[of gs'] by (cases g) auto
  qed
qed

section \<open>The outlier filter\<close>

lemma np_std_constant:
  assumes "\<forall>x\<in>set xs. x = v" and "xs \<noteq> []"
  shows "np_std xs = 0"
proof -
  have xs: "xs = replicate (length xs) v"
    using assms(1) by (simp add: replicate_length_same)
  have "sum_list xs = real (length xs) * v"
    by (subst xs) (simp add: sum_list_replicate)
  then have m: "np_mean xs = v" using assms(2) by (simp add: np_mean_def)
  have "map (\<lambda>x. (x - np_mean xs)\<^sup>2) xs = map (\<lambda>x. 0) xs"
    using assms(1) m by (intro map_cong) auto
  then have "sum_list (map (\<lambda>x. (x - np_mean xs)\<^sup>2) xs) = sum_list (map (\<lambda>x. 0) xs)"
    by (rule arg_cong)
  then have "sum_list (map (\<lambda>x. (x - np_mean xs)\<^sup>2) xs) = 0" by simp
  then show ?thesis unfolding np_std_def by simp
qed

text \<open>On a constant column every score is NaN, no comparison holds, and no row is kept.\<close>

lemma constant_column_all_removed:
  assumes "getitem df column = Inr (Floats xs)" and "\<forall>x\<in>set xs. x = v" and "xs \<noteq> []"
  shows "\<exists>out. remove_outliers_zscore df column threshold = (df, Inr out) \<and> rows out = []"
proof -
  have "np_std xs = 0" using assms(2,3) by (rule np_std_constant)
  then have "map (\<lambda>z. abs_le z threshold) (zscore xs) = map (\<lambda>x. False) xs"
    by (simp add: zscore_def abs_le_def)
  then have "rows (df_mask df (map (\<lambda>z. abs_le z threshold) (zscore xs))) = []"
    by (auto simp: df_mask_def mask_list_def filter_empty_conv dest!: set_zip_rightD)
  then show ?thesis using assms(1) by (simp add: remove_outliers_zscore_def)
qed

lemma constant_prices_std: "np_std [5, 5] = 0"
  by (simp add: np_std_def np_mean_def)

text \<open>
  C2. The claim: on a non-empty table whose column is constant, no row is removed. The
  code at two rows of price 5 and the default threshold 3: both scores are NaN and the
  table returned has no row.
\<close>

theorem constant_column_removed:
  "remove_outliers_zscore constant_prices ''item_price'' 3 =
     (constant_prices, Inr \<lparr>rows = [], col_cohort = None, col_period = None\<rparr>)"
  by (simp add: remove_outliers_zscore_def getitem_def constant_prices_def transaction_def
      zscore_def constant_prices_std abs_le_def df_mask_def mask_list_def)



text \<open>Whatever the scores, the rows returned are rows of the input, in their order.\<close>

lemma remove_outliers_zscore_subseq:
  assumes "remove_outliers_zscore df column threshold = (df', Inr out)"
  shows "subseq (rows out) (rows df)"
proof -
  from assms obtain xs where "out = df_mask df (map (\<lambda>z. abs_le z threshold) (zscore xs))"
    by (auto simp: remove_outliers_zscore_def split: sum.splits series.splits)
  then show ?thesis by (simp add: df_mask_def mask_list_subseq)
qed

section \<open>The category ranking\<close>

lemma set_unique_sorted: "set (unique_sorted ks) = set ks"
  by (simp add: unique_sorted_def)

lemma distinct_unique_sorted: "distinct (unique_sorted ks)"
  by (simp add: unique_sorted_def)

lemma sorted_unique_sorted: "sorted (unique_sorted ks)"
  by (simp add: unique_sorted_def)











lemma sample_sales_by_category:
  "sort_values_desc (groupby_sum item_category (rows sample_sales)) = [(''a'', 12), (''b'', 10)]"
  by (simp add: sort_values_desc_def groupby_sum_def unique_sorted_def sample_sales_def transaction_def)



section \<open>The customer segments\<close>

lemma customer_segmentation_call:
  "customer_segmentation data =
     (data, Inr (map (\<lambda>(u, x).
        \<lparr>us_user_id = u, us_total_amount = x,
         segment = np_select
           (conditions (quantile (map snd (groupby_sum user_id (rows data))) (33 / 100))
              (quantile (map snd (groupby_sum user_id (rows data))) (66 / 100)) x)
           choices ''low_spenders''\<rparr>)
      (groupby_sum user_id (rows data))))"
  by (simp add: customer_segmentation_def Let_def)

text \<open>
  C8, amended. For a table with no user, \<^verbatim>\<open>customer_segmentation\<close> raises nothing: the
  quantiles of the empty column are NaN, there is no row to classify, and the table returned
  is empty.
\<close>

theorem customer_segmentation_no_users:
  assumes "user_id ` set (rows data) = {}"
  shows "customer_segmentation data = (data, Inr [])"
proof -
  have "rows data = []" using assms by simp
  then show ?thesis
    by (simp add: customer_segmentation_call groupby_sum_def unique_sorted_def)
qed

theorem customer_segmentation_no_users_witness:
  "user_id ` set (rows empty_table) = {} \<and>
   customer_segmentation empty_table = (empty_table, Inr [])"
  using customer_segmentation_no_users[of empty_table] by (simp add: empty_table_def)

text \<open>
  C8 as stated has the call fail on a table without users. On the empty table the 33rd
  percentile is NaN and the call returns the empty table.
\<close>

theorem customer_segmentation_empty_counterexample:
  "snd (customer_segmentation empty_table) = Inr [] \<and> quantile [] (33 / 100) = None"
  by (simp add: customer_segmentation_call groupby_sum_def unique_sorted_def empty_table_def
      quantile_def)

lemma np_select_with_choice:
  "np_select (conditions_with A lo hi x) choices ''low_spenders''
     \<in> {''low_spenders'', ''medium_spenders'', ''high_spenders''}"
  by (simp add: conditions_with_def choices_def)

lemma np_select_with_default:
  assumes "\<not> fle A x lo" and "\<not> (fgt A x lo \<and> fle A x hi)" and "\<not> fgt A x hi"
  shows "np_select (conditions_with A lo hi x) choices ''low_spenders'' = ''low_spenders''"
  using assms by (simp add: conditions_with_def choices_def)

lemma customer_segmentation_with_call:
  "customer_segmentation_with A data =
     (data, Inr (map (\<lambda>(u, x).
        \<lparr>sp_user_id = u, sp_total_amount = x,
         sp_segment = np_select
           (conditions_with A
              (series_quantile A (map snd (groupby_sum_with A user_id (rows data))) (33 / 100))
              (series_quantile A (map snd (groupby_sum_with A user_id (rows data))) (66 / 100)) x)
           choices ''low_spenders''\<rparr>)
      (groupby_sum_with A user_id (rows data))))"
  by (simp add: customer_segmentation_with_def Let_def)

text \<open>
  C10. Whatever the arithmetic of the doubles, every row returned by
  \<^verbatim>\<open>customer_segmentation\<close> has one of the three segment names, and a row whose total meets
  none of the three conditions, evaluated against the two quantiles of the returned totals,
  has the default \<^verbatim>\<open>low_spenders\<close>.
\<close>

theorem customer_segmentation_segment_names:
  assumes "customer_segmentation_with A data = (data', Inr out)"
  shows "\<forall>s \<in> set out.
           sp_segment s \<in> {''low_spenders'', ''medium_spenders'', ''high_spenders''} \<and>
           (\<not> fle A (sp_total_amount s) (series_quantile A (map sp_total_amount out) (33 / 100)) \<and>
            \<not> (fgt A (sp_total_amount s) (series_quantile A (map sp_total_amount out) (33 / 100)) \<and>
               fle A (sp_total_amount s) (series_quantile A (map sp_total_amount out) (66 / 100))) \<and>
            \<not> fgt A (sp_total_amount s) (series_quantile A (map sp_total_amount out) (66 / 100))
            \<longrightarrow> sp_segment s = ''low_spenders'')"
proof
  fix s assume s: "s \<in> set out"
  let ?g = "groupby_sum_with A user_id (rows data)"
  let ?lo = "series_quantile A (map snd ?g) (33 / 100)"
  let ?hi = "series_quantile A (map snd ?g) (66 / 100)"
  let ?row = "\<lambda>(u, x). \<lparr>sp_user_id = u, sp_total_amount = x,
      sp_segment = np_select (conditions_with A ?lo ?hi x) choices ''low_spenders''\<rparr>"
  have out: "out = map ?row ?g"
    using assms by (auto simp: customer_segmentation_with_call)
  have totals: "map sp_total_amount out = map snd ?g"
    unfolding out by (simp add: comp_def case_prod_beta)
  from s obtain k x where "s = ?row (k, x)" unfolding out by auto
  then have seg: "sp_segment s =
      np_select (conditions_with A ?lo ?hi (sp_total_amount s)) choices ''low_spenders''"
    by simp
  show "sp_segment s \<in> {''low_spenders'', ''medium_spenders'', ''high_spenders''} \<and>
           (\<not> fle A (sp_total_amount s) (series_quantile A (map sp_total_amount out) (33 / 100)) \<and>
            \<not> (fgt A (sp_total_amount s) (series_quantile A (map sp_total_amount out) (33 / 100)) \<and>
               fle A (sp_total_amount s) (series_quantile A (map sp_total_amount out) (66 / 100))) \<and>
            \<not> fgt A (sp_total_amount s) (series_quantile A (map sp_total_amount out) (66 / 100))
            \<longrightarrow> sp_segment s = ''low_spenders'')"
    unfolding totals seg
  proof (intro conjI impI)
    show "np_select (conditions_with A ?lo ?hi (sp_total_amount s)) choices ''low_spenders''
        \<in> {''low_spenders'', ''medium_spenders'', ''high_spenders''}"
      by (rule np_select_with_choice)
  next
    assume "\<not> fle A (sp_total_amount s) ?lo \<and>
        \<not> (fgt A (sp_total_amount s) ?lo \<and> fle A (sp_total_amount s) ?hi) \<and>
        \<not> fgt A (sp_total_amount s) ?hi"
    then show "np_select (conditions_with A ?lo ?hi (sp_total_amount s)) choices ''low_spenders''
        = ''low_spenders''"
      by (intro np_select_with_default) simp_all
  qed
qed

lemma overflow_huge: "overflow huge = Fin huge"
proof -
  have "(2::real) ^ 1023 \<le> (2 - 1 / 2 ^ 52) * 2 ^ 1023" by simp
  moreover have "- ((2 - 1 / 2 ^ 52) * 2 ^ 1023) \<le> (2::real) ^ 1023" by simp
  ultimately show ?thesis by (simp add: overflow_def max_double_def huge_def not_less)
qed

lemma overflow_two_huge: "overflow (huge + huge) = PInf"
proof -
  have "(2 - 1 / 2 ^ 52) * 2 ^ 1023 < (2::real) ^ 1023 + 2 ^ 1023" by simp
  then show ?thesis by (simp add: overflow_def max_double_def huge_def)
qed

lemma sum_two_huge: "foldl dbl_add (Fin 0) [overflow huge, overflow huge] = PInf"
proof -
  have "dbl_add (Fin 0) (Fin huge) = Fin huge" by (simp add: dbl_add_def overflow_huge)
  moreover have "dbl_add (Fin huge) (Fin huge) = PInf"
    unfolding dbl_add_def by (simp only: prod.case dbl.case overflow_two_huge)
  ultimately show ?thesis by (simp add: overflow_huge)
qed

lemma big_spenders_sums:
  "groupby_sum_with dbl_arith user_id (rows big_spenders) = [(1, PInf), (2, PInf)]"
  using sum_two_huge
  by (simp add: groupby_sum_with_def unique_sorted_def big_spenders_def transaction_def
      dbl_arith_def)

lemma infinite_quantile:
  "dbl_quantile [PInf, PInf] (33 / 100) = NaN" "dbl_quantile [PInf, PInf] (66 / 100) = NaN"
  by (simp_all add: dbl_quantile_def Let_def dbl_key_def dbl_sub_def dbl_neg_def dbl_add_def
      dbl_scale_def)

lemma big_spenders_segments:
  "customer_segmentation_with dbl_arith big_spenders =
     (big_spenders,
      Inr [\<lparr>sp_user_id = 1, sp_total_amount = PInf, sp_segment = ''low_spenders''\<rparr>,
           \<lparr>sp_user_id = 2, sp_total_amount = PInf, sp_segment = ''low_spenders''\<rparr>])"
proof -
  have q: "series_quantile dbl_arith [PInf, PInf] (33 / 100) = NaN"
    "series_quantile dbl_arith [PInf, PInf] (66 / 100) = NaN"
    unfolding dbl_arith_def by (simp_all only: arith.select_convs infinite_quantile)
  have c: "np_select (conditions_with dbl_arith NaN NaN PInf) choices ''low_spenders''
      = ''low_spenders''"
    by (simp add: conditions_with_def choices_def dbl_arith_def dbl_le_def dbl_lt_def)
  show ?thesis
    unfolding customer_segmentation_with_call big_spenders_sums list.map snd_conv q
    by (simp add: c)
qed

text \<open>
  With the sums of both users infinite, the interpolation takes the difference of two
  infinities: both quantiles are NaN, none of the conditions holds, and both users get the
  default.
\<close>

theorem customer_segmentation_segment_names_witness:
  "customer_segmentation_with dbl_arith big_spenders =
     (big_spenders,
      Inr [\<lparr>sp_user_id = 1, sp_total_amount = PInf, sp_segment = ''low_spenders''\<rparr>,
           \<lparr>sp_user_id = 2, sp_total_amount = PInf, sp_segment = ''low_spenders''\<rparr>]) \<and>
   series_quantile dbl_arith [PInf, PInf] (33 / 100) = NaN \<and>
   series_quantile dbl_arith [PInf, PInf] (66 / 100) = NaN \<and>
   conditions_with dbl_arith NaN NaN PInf = [False, False, False]"
proof -
  have q: "series_quantile dbl_arith [PInf, PInf] (33 / 100) = NaN"
    "series_quantile dbl_arith [PInf, PInf] (66 / 100) = NaN"
    unfolding dbl_arith_def by (simp_all only: arith.select_convs infinite_quantile)
  have c: "conditions_with dbl_arith NaN NaN PInf = [False, False, False]"
    by (simp add: conditions_with_def dbl_arith_def dbl_le_def dbl_lt_def)
  note names = customer_segmentation_segment_names[OF big_spenders_segments]
  have "sp_segment \<lparr>sp_user_id = 1, sp_total_amount = PInf, sp_segment = ''low_spenders''\<rparr>
      = ''low_spenders''"
    using names by simp
  then show ?thesis using big_spenders_segments q c by (intro conjI)
qed

text \<open>With the real arithmetic the parametric function is the one of the section above.\<close>

lemma groupby_sum_real_arith:
  "groupby_sum_with real_arith key rs = map (\<lambda>(k, x). (k, Some x)) (groupby_sum key rs)"
  by (simp add: groupby_sum_with_def groupby_sum_def real_arith_def comp_def)

lemma conditions_real_arith:
  "conditions_with real_arith lo hi (Some x) = conditions lo hi x"
  by (simp add: conditions_with_def conditions_def real_arith_def)

lemma customer_segmentation_real_arith:
  "customer_segmentation_with real_arith data =
     (data,
      map_sum id
        (map (\<lambda>s. \<lparr>sp_user_id = us_user_id s, sp_total_amount = Some (us_total_amount s),
                     sp_segment = segment s\<rparr>))
        (snd (customer_segmentation data)))"
proof -
  have q: "series_quantile real_arith (map snd (map (\<lambda>(k, x). (k, Some x)) g)) p
      = quantile (map snd g) p" for g :: "(nat \<times> real) list" and p
    by (simp add: real_arith_def comp_def case_prod_beta)
  show ?thesis
    unfolding customer_segmentation_with_call customer_segmentation_call groupby_sum_real_arith q
    by (simp add: comp_def case_prod_beta conditions_real_arith)
qed

section \<open>The cohort retention analysis\<close>

lemma zip3_map:
  "zip (map f rs) (zip (map g rs) (map h rs)) = map (\<lambda>r. (f r, g r, h r)) rs"
  by (induction rs) auto

lemma nunique_card: "nunique xs = card (set xs)"
  by (simp add: nunique_def length_remdups_card_conv)

lemma filter_eq_singleton:
  assumes "distinct xs" and "x \<in> set xs"
  shows "filter (\<lambda>y. y = x) xs = [x]"
  using assms by (induction xs) (auto simp: filter_empty_conv)

lemma merge_on_cohort_unique:
  fixes ret :: "int \<times> int \<Rightarrow> nat" and sz :: "int \<Rightarrow> nat"
  assumes d: "distinct cs" and m: "\<forall>k \<in> set ps. fst k \<in> set cs"
  shows "merge_on_cohort (map (\<lambda>k. (k, ret k)) ps) (map (\<lambda>c. (c, sz c)) cs)
           = map (\<lambda>k. (fst k, snd k, ret k, sz (fst k))) ps"
  using m
proof (induction ps)
  case Nil
  show ?case by (simp add: merge_on_cohort_def)
next
  case (Cons k ps)
  obtain c p where k: "k = (c, p)" by (cases k)
  have c: "c \<in> set cs" using Cons.prems k by simp
  have "filter (\<lambda>(c', s). c' = c) (map (\<lambda>c. (c, sz c)) cs)
      = map (\<lambda>c. (c, sz c)) (filter (\<lambda>y. y = c) cs)"
    by (simp add: filter_map comp_def)
  also have "\<dots> = [(c, sz c)]" using filter_eq_singleton[OF d c] by simp
  finally have one: "filter (\<lambda>(c', s). c' = c) (map (\<lambda>c. (c, sz c)) cs) = [(c, sz c)]" .
  have "merge_on_cohort (map (\<lambda>k. (k, ret k)) ps) (map (\<lambda>c. (c, sz c)) cs)
      = map (\<lambda>k. (fst k, snd k, ret k, sz (fst k))) ps"
    using Cons by simp
  then show ?case using one by (simp add: merge_on_cohort_def k)
qed

text \<open>What the analysis returns, in terms of the set of triples.\<close>

lemma cohort_retention_rows:
  fixes b :: "date \<Rightarrow> int"
  defines "K \<equiv> \<lambda>df. set (cohort_keys b (rows df))"
  shows "snd (cohort_retention b df) =
     map (\<lambda>k. \<lparr>cohort = fst k, period = snd k,
                retained_users = card {u. (fst k, snd k, u) \<in> K df},
                cohort_size = card {u. \<exists>p. (fst k, p, u) \<in> K df},
                retention_rate =
                  real (card {u. (fst k, snd k, u) \<in> K df}) /
                  real (card {u. \<exists>p. (fst k, p, u) \<in> K df}) * 100\<rparr>)
       (unique_sorted (map (\<lambda>t. (fst t, fst (snd t))) (unique_sorted (cohort_keys b (rows df)))))"
proof -
  let ?keys = "cohort_keys b (rows df)"
  let ?us = "unique_sorted ?keys"
  let ?cd = "groupby_size ?keys"
  let ?ps = "unique_sorted (map (\<lambda>t. (fst t, fst (snd t))) ?us)"
  let ?cs = "unique_sorted (map fst ?us)"
  let ?ret = "\<lambda>k. card {u. (fst k, snd k, u) \<in> K df}"
  let ?sz = "\<lambda>c. card {u. \<exists>p. (c, p, u) \<in> K df}"
  have zip: "zip (map (\<lambda>r. b (first_purchase (rows df) (user_id r))) (rows df))
        (zip (map (\<lambda>r. b (transaction_date r) - b (first_purchase (rows df) (user_id r))) (rows df))
           (map user_id (rows df))) = ?keys"
    unfolding cohort_keys_def by (rule zip3_map)
  have cd: "?cd = map (\<lambda>k. (k, length (filter (\<lambda>k'. k' = k) ?keys))) ?us"
    by (simp add: groupby_size_def)
  have c1: "map (\<lambda>((c, p, u), n). c) ?cd = map fst ?us"
    unfolding cd by (simp add: comp_def case_prod_beta)
  have c2: "map (\<lambda>((c, p, u), n). (c, p)) ?cd = map (\<lambda>t. (fst t, fst (snd t))) ?us"
    unfolding cd by (simp add: comp_def case_prod_beta)
  have sz: "nunique (map (\<lambda>((c', p, u), n). u) (filter (\<lambda>((c', p, u), n). c' = c) ?cd)) = ?sz c" for c
  proof -
    have "set (map (\<lambda>((c', p, u), n). u) (filter (\<lambda>((c', p, u), n). c' = c) ?cd))
        = {u. \<exists>p. (c, p, u) \<in> K df}"
      unfolding cd K_def by (force simp: set_unique_sorted)
    then show ?thesis by (simp only: nunique_card)
  qed
  have ret: "nunique (map (\<lambda>((c', p, u), n). u) (filter (\<lambda>((c', p, u), n). (c', p) = k) ?cd)) = ?ret k" for k
  proof -
    have "set (map (\<lambda>((c', p, u), n). u) (filter (\<lambda>((c', p, u), n). (c', p) = k) ?cd))
        = {u. (fst k, snd k, u) \<in> K df}"
      unfolding cd K_def by (force simp: set_unique_sorted)
    then show ?thesis by (simp only: nunique_card)
  qed
  have m: "\<forall>k \<in> set ?ps. fst k \<in> set ?cs"
    by (force simp: set_unique_sorted)
  have merge: "merge_on_cohort (map (\<lambda>k. (k, ?ret k)) ?ps) (map (\<lambda>c. (c, ?sz c)) ?cs)
      = map (\<lambda>k. (fst k, snd k, ?ret k, ?sz (fst k))) ?ps"
    using distinct_unique_sorted m by (rule merge_on_cohort_unique)
  show ?thesis
    unfolding cohort_retention_def Let_def zip snd_conv c1 c2 sz ret merge
    by (simp add: comp_def)
qed

lemma cohort_retention_row_iff:
  "r \<in> set (snd (cohort_retention b df)) \<longleftrightarrow>
     (\<exists>c p u. (c, p, u) \<in> set (cohort_keys b (rows df)) \<and>
        r = \<lparr>cohort = c, period = p,
             retained_users = card {u. (c, p, u) \<in> set (cohort_keys b (rows df))},
             cohort_size = card {u. \<exists>p'. (c, p', u) \<in> set (cohort_keys b (rows df))},
             retention_rate =
               real (card {u. (c, p, u) \<in> set (cohort_keys b (rows df))}) /
               real (card {u. \<exists>p'. (c, p', u) \<in> set (cohort_keys b (rows df))}) * 100\<rparr>)"
  unfolding cohort_retention_rows by (force simp: set_unique_sorted)

lemma first_purchase_attained:
  assumes "r \<in> set rs"
  shows "\<exists>r0 \<in> set rs. user_id r0 = user_id r \<and>
           transaction_date r0 = first_purchase rs (user_id r)"
proof -
  let ?ds = "map transaction_date (filter (\<lambda>r'. user_id r' = user_id r) rs)"
  have ne: "?ds \<noteq> []" using assms by (auto simp: filter_empty_conv)
  then have "min_list ?ds = Min (set ?ds)" by (rule min_list_Min)
  also have "\<dots> \<in> set ?ds"
  proof (rule Min_in)
    show "finite (set ?ds)" by (rule finite_set)
    show "set ?ds \<noteq> {}" by (subst set_empty) (rule ne)
  qed
  finally have "first_purchase rs (user_id r) \<in> set ?ds" by (simp only: first_purchase_def)
  then show ?thesis by auto
qed

lemma cohort_keys_period_zero:
  assumes "(c, p, u) \<in> set (cohort_keys b rs)"
  shows "(c, 0, u) \<in> set (cohort_keys b rs)"
proof -
  from assms obtain r where r: "r \<in> set rs" and u: "u = user_id r"
    and c: "c = b (first_purchase rs (user_id r))"
    by (auto simp: cohort_keys_def)
  from first_purchase_attained[OF r] obtain r0 where r0: "r0 \<in> set rs"
    and u0: "user_id r0 = user_id r" and d0: "transaction_date r0 = first_purchase rs (user_id r)"
    by blast
  have "(b (first_purchase rs (user_id r0)),
         b (transaction_date r0) - b (first_purchase rs (user_id r0)), user_id r0)
        \<in> set (cohort_keys b rs)"
    unfolding cohort_keys_def set_map using r0 by (rule imageI)
  then show ?thesis by (simp add: u0 d0 c u)
qed

lemma cohort_users_finite: "finite {u. \<exists>p. (c, p, u) \<in> set ks}"
proof (rule finite_subset)
  show "{u. \<exists>p. (c, p, u) \<in> set ks} \<subseteq> (\<lambda>t. snd (snd t)) ` set ks" by force
qed simp

lemma cohort_period_zero_users:
  "{u. (c, 0, u) \<in> set (cohort_keys b rs)} = {u. \<exists>p. (c, p, u) \<in> set (cohort_keys b rs)}"
  using cohort_keys_period_zero by blast

lemma cohort_size_positive:
  assumes "(c, p, u) \<in> set ks"
  shows "0 < card {u. \<exists>p. (c, p, u) \<in> set ks}"
proof -
  have "u \<in> {u. \<exists>p. (c, p, u) \<in> set ks}" using assms by blast
  then show ?thesis using cohort_users_finite[of c ks] by (auto simp: card_gt_0_iff)
qed

lemma retained_le_cohort_size:
  "card {u. (c, p, u) \<in> set ks} \<le> card {u. \<exists>p. (c, p, u) \<in> set ks}"
  by (rule card_mono[OF cohort_users_finite]) blast

lemma cohort_retention_analysis_Inr:
  assumes "cohort_retention_analysis data time_period = (data', Inr out)"
  shows "\<exists>b. to_period time_period = Some b \<and> cohort_retention b data = (data', out)"
  using assms by (auto simp: cohort_retention_analysis_def split: option.splits prod.splits)

text \<open>
  C4. When \<^verbatim>\<open>cohort_retention_analysis\<close> returns, every cohort of the output has a
  period-0 record, whose \<^verbatim>\<open>retained_users\<close> is the \<^verbatim>\<open>cohort_size\<close> of that cohort, and every
  period-0 record has \<^verbatim>\<open>retained_users = cohort_size\<close> and \<^verbatim>\<open>retention_rate = 100\<close>.
\<close>

theorem cohort_period_zero:
  assumes "cohort_retention_analysis data time_period = (data', Inr out)"
  shows "(\<forall>r \<in> set out. \<exists>r0 \<in> set out.
            cohort r0 = cohort r \<and> period r0 = 0 \<and> retained_users r0 = cohort_size r) \<and>
         (\<forall>r \<in> set out. period r = 0 \<longrightarrow>
            retained_users r = cohort_size r \<and> retention_rate r = 100)"
proof -
  from cohort_retention_analysis_Inr[OF assms] obtain b
    where call: "cohort_retention b data = (data', out)" by blast
  let ?ks = "cohort_keys b (rows data)"
  let ?row = "\<lambda>c p. \<lparr>cohort = c, period = p,
       retained_users = card {u. (c, p, u) \<in> set ?ks},
       cohort_size = card {u. \<exists>p'. (c, p', u) \<in> set ?ks},
       retention_rate = real (card {u. (c, p, u) \<in> set ?ks}) /
         real (card {u. \<exists>p'. (c, p', u) \<in> set ?ks}) * 100\<rparr>"
  have out: "out = snd (cohort_retention b data)" using call by simp
  have mem: "r \<in> set out \<longleftrightarrow> (\<exists>c p u. (c, p, u) \<in> set ?ks \<and> r = ?row c p)" for r
    unfolding out by (rule cohort_retention_row_iff)
  have first: "\<exists>r0 \<in> set out. cohort r0 = cohort r \<and> period r0 = 0 \<and>
      retained_users r0 = cohort_size r" if "r \<in> set out" for r
  proof -
    from that obtain c p u where k: "(c, p, u) \<in> set ?ks" and r: "r = ?row c p"
      unfolding mem by blast
    have "(c, 0, u) \<in> set ?ks" using k by (rule cohort_keys_period_zero)
    then have "?row c 0 \<in> set out" unfolding mem by blast
    moreover have "cohort (?row c 0) = cohort r" "period (?row c 0) = 0"
      "retained_users (?row c 0) = cohort_size r"
      by (simp_all add: r cohort_period_zero_users)
    ultimately show ?thesis by blast
  qed
  have zero: "retained_users r = cohort_size r \<and> retention_rate r = 100"
    if "r \<in> set out" and "period r = 0" for r
  proof -
    from that(1) obtain c p u where k: "(c, p, u) \<in> set ?ks" and r: "r = ?row c p"
      unfolding mem by blast
    have p: "p = 0" using that(2) r by simp
    have pos: "0 < card {u. \<exists>p'. (c, p', u) \<in> set ?ks}" using k by (rule cohort_size_positive)
    show ?thesis using pos by (simp add: r p cohort_period_zero_users)
  qed
  show ?thesis using first zero by blast
qed

text \<open>
  C7. When \<^verbatim>\<open>cohort_retention_analysis\<close> returns, every record has a positive
  \<^verbatim>\<open>cohort_size\<close>, its \<^verbatim>\<open>retention_rate\<close> is \<open>retained_users / cohort_size * 100\<close>, and the
  rate lies between 0 and 100.
\<close>

theorem retention_rate_bounds:
  assumes "cohort_retention_analysis data time_period = (data', Inr out)"
  shows "\<forall>r \<in> set out.
           0 < cohort_size r \<and>
           retention_rate r = real (retained_users r) / real (cohort_size r) * 100 \<and>
           0 \<le> retention_rate r \<and> retention_rate r \<le> 100"
proof
  fix r assume r: "r \<in> set out"
  from cohort_retention_analysis_Inr[OF assms] obtain b
    where call: "cohort_retention b data = (data', out)" by blast
  let ?ks = "cohort_keys b (rows data)"
  have "r \<in> set (snd (cohort_retention b data))" using r call by simp
  then obtain c p u where k: "(c, p, u) \<in> set ?ks"
    and ru: "retained_users r = card {u. (c, p, u) \<in> set ?ks}"
    and cs: "cohort_size r = card {u. \<exists>p'. (c, p', u) \<in> set ?ks}"
    and rate: "retention_rate r = real (card {u. (c, p, u) \<in> set ?ks}) /
         real (card {u. \<exists>p'. (c, p', u) \<in> set ?ks}) * 100"
    unfolding cohort_retention_row_iff by auto
  have pos: "0 < cohort_size r" unfolding cs using k by (rule cohort_size_positive)
  have le: "retained_users r \<le> cohort_size r" unfolding ru cs by (rule retained_le_cohort_size)
  have eq: "retention_rate r = real (retained_users r) / real (cohort_size r) * 100"
    by (simp only: rate ru cs)
  define x where "x = real (retained_users r) / real (cohort_size r)"
  have "x \<le> 1" "0 \<le> x" unfolding x_def using pos le by simp_all
  moreover have "retention_rate r = x * 100" unfolding x_def by (rule eq)
  ultimately have "retention_rate r \<le> 100" "0 \<le> retention_rate r" by linarith+
  then show "0 < cohort_size r \<and>
           retention_rate r = real (retained_users r) / real (cohort_size r) * 100 \<and>
           0 \<le> retention_rate r \<and> retention_rate r \<le> 100"
    using pos eq by blast
qed

lemma sample_sales_retention:
  "cohort_retention_analysis sample_sales ''M'' =
     (sample_sales\<lparr>col_cohort := Some [612, 612, 612], col_period := Some [0, 0, 1]\<rparr>,
      Inr [\<lparr>cohort = 612, period = 0, retained_users = 2, cohort_size = 2, retention_rate = 100\<rparr>,
           \<lparr>cohort = 612, period = 1, retained_users = 1, cohort_size = 2, retention_rate = 50\<rparr>])"
  by (simp add: cohort_retention_analysis_def to_period_def cohort_retention_def Let_def
      first_purchase_def sample_sales_def transaction_def month_ordinal_def groupby_size_def
      unique_sorted_def nunique_def merge_on_cohort_def)

theorem cohort_period_zero_witness:
  "\<exists>r0 \<in> set [\<lparr>cohort = 612, period = 0, retained_users = 2, cohort_size = 2, retention_rate = 100\<rparr>,
               \<lparr>cohort = 612, period = 1, retained_users = 1, cohort_size = 2, retention_rate = 50\<rparr>].
      cohort r0 = 612 \<and> period r0 = 0 \<and> retained_users r0 = 2"
  using cohort_period_zero[OF sample_sales_retention, THEN conjunct1] by simp

theorem retention_rate_bounds_witness:
  "snd (cohort_retention_analysis sample_sales ''M'') =
     Inr [\<lparr>cohort = 612, period = 0, retained_users = 2, cohort_size = 2, retention_rate = 100\<rparr>,
          \<lparr>cohort = 612, period = 1, retained_users = 1, cohort_size = 2, retention_rate = 50\<rparr>] \<and>
   0 < cohort_size
         \<lparr>cohort = 612, period = 1, retained_users = 1, cohort_size = 2, retention_rate = 50\<rparr> \<and>
   0 \<le> retention_rate
         \<lparr>cohort = 612, period = 1, retained_users = 1, cohort_size = 2, retention_rate = 50\<rparr> \<and>
   retention_rate
         \<lparr>cohort = 612, period = 1, retained_users = 1, cohort_size = 2, retention_rate = 50\<rparr>
     \<le> 100"
  using retention_rate_bounds[OF sample_sales_retention] sample_sales_retention by simp

lemma filter_same_key:
  assumes "distinct (map f xs)" and "x \<in> set xs"
  shows "filter (\<lambda>y. f y = f x) xs = [x]"
  using assms
proof (induction xs)
  case Nil
  then show ?case by simp
next
  case (Cons a xs)
  show ?case
  proof (cases "a = x")
    case True
    have "f y \<noteq> f x" if "y \<in> set xs" for y
    proof
      assume "f y = f x"
      then have "f x \<in> f ` set xs" using that by (metis imageI)
      then show False using Cons.prems(1) True by simp
    qed
    then have "filter (\<lambda>y. f y = f x) xs = []" by (simp add: filter_empty_conv)
    then show ?thesis using True by simp
  next
    case False
    then have x: "x \<in> set xs" using Cons.prems(2) by simp
    then have "f a \<noteq> f x" using Cons.prems(1) by auto
    then show ?thesis using Cons.IH x Cons.prems(1) by simp
  qed
qed

lemma single_purchase_keys:
  assumes "distinct (map user_id rs)"
  shows "cohort_keys b rs = map (\<lambda>r. (b (transaction_date r), 0, user_id r)) rs"
  unfolding cohort_keys_def
proof (rule map_cong[OF refl])
  fix r assume r: "r \<in> set rs"
  have "first_purchase rs (user_id r) = transaction_date r"
    unfolding first_purchase_def filter_same_key[OF assms r] by simp
  then show "(b (first_purchase rs (user_id r)),
       b (transaction_date r) - b (first_purchase rs (user_id r)), user_id r)
      = (b (transaction_date r), 0, user_id r)" by simp
qed

text \<open>
  C9, amended. For a table of N users with one transaction each, the N transactions lying
  in N different calendar buckets, \<^verbatim>\<open>cohort_retention_analysis\<close> returns N records, one per
  cohort, each of period 0 and of \<^verbatim>\<open>cohort_size\<close> 1.
\<close>

theorem single_purchase_cohorts:
  assumes tp: "to_period time_period = Some b"
    and users: "distinct (map user_id (rows data))"
    and buckets: "distinct (map (\<lambda>r. b (transaction_date r)) (rows data))"
  shows "\<exists>data' out. cohort_retention_analysis data time_period = (data', Inr out) \<and>
           length out = length (rows data) \<and>
           distinct (map cohort out) \<and>
           set (map cohort out) = (\<lambda>r. b (transaction_date r)) ` set (rows data) \<and>
           (\<forall>r \<in> set out. period r = 0 \<and> cohort_size r = 1 \<and> retained_users r = 1 \<and>
              retention_rate r = 100)"
proof -
  let ?rs = "rows data"
  let ?ks = "cohort_keys b ?rs"
  let ?P = "unique_sorted (map (\<lambda>t. (fst t, fst (snd t))) (unique_sorted ?ks))"
  let ?row = "\<lambda>k. \<lparr>cohort = fst k, period = snd k,
                retained_users = card {u. (fst k, snd k, u) \<in> set ?ks},
                cohort_size = card {u. \<exists>p. (fst k, p, u) \<in> set ?ks},
                retention_rate =
                  real (card {u. (fst k, snd k, u) \<in> set ?ks}) /
                  real (card {u. \<exists>p. (fst k, p, u) \<in> set ?ks}) * 100\<rparr>"
  let ?out = "snd (cohort_retention b data)"
  have call: "cohort_retention_analysis data time_period = (fst (cohort_retention b data), Inr ?out)"
    by (simp add: cohort_retention_analysis_def tp case_prod_beta)
  have out: "?out = map ?row ?P" by (rule cohort_retention_rows)
  have ks: "?ks = map (\<lambda>r. (b (transaction_date r), 0, user_id r)) ?rs"
    using users by (rule single_purchase_keys)
  have setP: "set ?P = (\<lambda>r. (b (transaction_date r), 0)) ` set ?rs"
    unfolding ks by (force simp: set_unique_sorted)
  have dP: "distinct ?P" by (rule distinct_unique_sorted)
  have dpairs: "distinct (map (\<lambda>r. (b (transaction_date r), 0::int)) ?rs)"
    using buckets by (simp add: distinct_map inj_on_def)
  have "length ?P = card (set ?P)" using dP by (simp add: distinct_card)
  also have "\<dots> = card (set (map (\<lambda>r. (b (transaction_date r), 0::int)) ?rs))"
    by (simp only: setP set_map)
  also have "\<dots> = length ?rs" using distinct_card[OF dpairs] by simp
  finally have len: "length ?out = length ?rs" unfolding out by simp
  have cohorts: "map cohort ?out = map fst ?P" unfolding out by (simp add: comp_def)
  have "inj_on fst (set ?P)" unfolding setP by (auto simp: inj_on_def)
  then have dc: "distinct (map cohort ?out)" unfolding cohorts using dP by (simp add: distinct_map)
  have sc: "set (map cohort ?out) = (\<lambda>r. b (transaction_date r)) ` set ?rs"
    unfolding cohorts set_map setP by force
  have rows: "period r = 0 \<and> cohort_size r = 1 \<and> retained_users r = 1 \<and> retention_rate r = 100"
    if "r \<in> set ?out" for r
  proof -
    from that obtain k where k: "k \<in> set ?P" and r: "r = ?row k" unfolding out by auto
    from k obtain t where t: "t \<in> set ?rs" and kt: "k = (b (transaction_date t), 0)"
      unfolding setP by blast
    have same: "t' = t" if "t' \<in> set ?rs" "b (transaction_date t') = b (transaction_date t)" for t'
      using buckets that t by (auto simp: distinct_map inj_on_def)
    have mem: "(c, p, u) \<in> set ?ks \<longleftrightarrow>
        (\<exists>t' \<in> set ?rs. c = b (transaction_date t') \<and> p = 0 \<and> u = user_id t')" for c p u
      unfolding ks by auto
    have here: "(b (transaction_date t), 0, user_id t) \<in> set ?ks"
      unfolding mem using t by blast
    have only: "u = user_id t" if "(b (transaction_date t), p, u) \<in> set ?ks" for p u
    proof -
      from that obtain t' where "t' \<in> set ?rs" "b (transaction_date t) = b (transaction_date t')"
        "u = user_id t'" unfolding mem by blast
      then show ?thesis using same[of t'] by simp
    qed
    have "{u. \<exists>p. (fst k, p, u) \<in> set ?ks} = {user_id t}"
      unfolding kt fst_conv using here only by blast
    moreover have "{u. (fst k, snd k, u) \<in> set ?ks} = {user_id t}"
      unfolding kt fst_conv snd_conv using here only by blast
    ultimately show ?thesis by (simp add: r kt)
  qed
  show ?thesis using call len dc sc rows by blast
qed

lemma to_period_M: "to_period ''M'' = Some month_ordinal"
  by (simp add: to_period_def)

lemma two_months_retention:
  "snd (cohort_retention_analysis two_months ''M'') =
     Inr [\<lparr>cohort = 612, period = 0, retained_users = 1, cohort_size = 1, retention_rate = 100\<rparr>,
          \<lparr>cohort = 613, period = 0, retained_users = 1, cohort_size = 1, retention_rate = 100\<rparr>]"
  by (simp add: cohort_retention_analysis_def to_period_def cohort_retention_def Let_def
      first_purchase_def two_months_def transaction_def month_ordinal_def groupby_size_def
      unique_sorted_def nunique_def merge_on_cohort_def)

theorem single_purchase_cohorts_witness:
  "to_period ''M'' = Some month_ordinal \<and>
   distinct (map user_id (rows two_months)) \<and>
   distinct (map (\<lambda>r. month_ordinal (transaction_date r)) (rows two_months)) \<and>
   length (rows two_months) = 2 \<and>
   snd (cohort_retention_analysis two_months ''M'') =
     Inr [\<lparr>cohort = 612, period = 0, retained_users = 1, cohort_size = 1, retention_rate = 100\<rparr>,
          \<lparr>cohort = 613, period = 0, retained_users = 1, cohort_size = 1, retention_rate = 100\<rparr>]"
proof -
  have users: "distinct (map user_id (rows two_months))"
    by (simp add: two_months_def transaction_def)
  have buckets: "distinct (map (\<lambda>r. month_ordinal (transaction_date r)) (rows two_months))"
    by (simp add: two_months_def transaction_def month_ordinal_def)
  have len: "length (rows two_months) = 2" by (simp add: two_months_def)
  from single_purchase_cohorts[OF to_period_M users buckets]
  obtain data' out where "cohort_retention_analysis two_months ''M'' = (data', Inr out)"
    and "length out = length (rows two_months)" by blast
  then show ?thesis using to_period_M users buckets len two_months_retention by simp
qed

lemma same_month_retention:
  "snd (cohort_retention_analysis same_month ''M'') =
     Inr [\<lparr>cohort = 612, period = 0, retained_users = 2, cohort_size = 2, retention_rate = 100\<rparr>]"
  by (simp add: cohort_retention_analysis_def to_period_def cohort_retention_def Let_def
      first_purchase_def same_month_def transaction_def month_ordinal_def groupby_size_def
      unique_sorted_def nunique_def merge_on_cohort_def)

text \<open>
  C9 as stated promises N cohorts of size 1 for any N users with one transaction each. Two
  users who both buy in January 2021 form one cohort of size 2.
\<close>

theorem single_purchase_same_month_counterexample:
  "distinct (map user_id (rows same_month)) \<and> length (rows same_month) = 2 \<and>
   snd (cohort_retention_analysis same_month ''M'') =
     Inr [\<lparr>cohort = 612, period = 0, retained_users = 2, cohort_size = 2, retention_rate = 100\<rparr>]"
  using same_month_retention by (simp add: same_month_def transaction_def)

section \<open>The input table after a call\<close>

lemma to_datetime_rows:
  "d\<lparr>rows := map (\<lambda>r. r\<lparr>transaction_date := to_datetime (transaction_date r)\<rparr>) (rows d)\<rparr> = d"
  by (simp add: to_datetime_def)

text \<open>
  C5, amended. \<^verbatim>\<open>remove_outliers_zscore\<close>, \<^verbatim>\<open>top_categories\<close> and
  \<^verbatim>\<open>customer_segmentation\<close> do not mutate the input table: what they return is a new table,
  and every table that was there before the call, the input among them, is afterwards what
  it was. \<^verbatim>\<open>cohort_retention_analysis\<close> does mutate the input table: it assigns the columns
  \<^verbatim>\<open>transaction_date\<close>, \<^verbatim>\<open>cohort\<close> and \<^verbatim>\<open>period\<close> of the table it is given, so that after the
  call this table has the rows it had (a timestamp is its own conversion) and, when the
  period alias is one of the table, the two columns \<^verbatim>\<open>cohort\<close> and \<^verbatim>\<open>period\<close>; every other
  table is what it was, and the result is a new table.
\<close>

theorem input_table_after_call:
  assumes ref: "data < length h" and tab: "h ! data = Table d"
  shows "take (length h) (fst (remove_outliers_zscore_on h data column threshold)) = h \<and>
         take (length h) (fst (top_categories_on h data top_n)) = h \<and>
         take (length h) (fst (customer_segmentation_on h data)) = h \<and>
         (\<forall>r. snd (remove_outliers_zscore_on h data column threshold) = Inr r \<longrightarrow> length h \<le> r) \<and>
         (\<forall>r. snd (top_categories_on h data top_n) = Inr r \<longrightarrow> length h \<le> r) \<and>
         (\<forall>r. snd (customer_segmentation_on h data) = Inr r \<longrightarrow> length h \<le> r) \<and>
         (\<forall>r. snd (cohort_retention_analysis_on h data time_period) = Inr r \<longrightarrow> length h \<le> r) \<and>
         (\<forall>r < length h. r \<noteq> data \<longrightarrow>
            fst (cohort_retention_analysis_on h data time_period) ! r = h ! r) \<and>
         (\<exists>d'. fst (cohort_retention_analysis_on h data time_period) ! data = Table d' \<and>
            rows d' = rows d \<and>
            (\<forall>b. to_period time_period = Some b \<longrightarrow>
               col_cohort d' = Some (map (\<lambda>r. b (first_purchase (rows d) (user_id r))) (rows d)) \<and>
               col_period d' =
                 Some (map (\<lambda>r. b (transaction_date r) - b (first_purchase (rows d) (user_id r)))
                         (rows d))))"
proof -
  have look: "lookup h data = Some (Table d)" using ref tab by (simp add: lookup_def)
  have a: "take (length h) (fst (remove_outliers_zscore_on h data column threshold)) = h"
    by (simp add: remove_outliers_zscore_on_def look new_object_def
        split: sum.splits series.splits)
  have b: "take (length h) (fst (top_categories_on h data top_n)) = h"
    by (simp add: top_categories_on_def look new_object_def)
  have c: "take (length h) (fst (customer_segmentation_on h data)) = h"
    by (simp add: customer_segmentation_on_def look new_object_def assign_def Let_def)
  have fa: "\<forall>r. snd (remove_outliers_zscore_on h data column threshold) = Inr r \<longrightarrow> length h \<le> r"
    by (auto simp: remove_outliers_zscore_on_def look new_object_def
        split: sum.splits series.splits)
  have fb: "\<forall>r. snd (top_categories_on h data top_n) = Inr r \<longrightarrow> length h \<le> r"
    by (auto simp: top_categories_on_def look new_object_def)
  have fc: "\<forall>r. snd (customer_segmentation_on h data) = Inr r \<longrightarrow> length h \<le> r"
    by (auto simp: customer_segmentation_on_def look new_object_def Let_def)
  have fd: "\<forall>r. snd (cohort_retention_analysis_on h data time_period) = Inr r \<longrightarrow> length h \<le> r"
    by (auto simp: cohort_retention_analysis_on_def look new_object_def assign_def Let_def
        case_prod_beta split: option.splits)
  have others: "\<forall>r < length h. r \<noteq> data \<longrightarrow>
      fst (cohort_retention_analysis_on h data time_period) ! r = h ! r"
    by (auto simp: cohort_retention_analysis_on_def look new_object_def assign_def Let_def
        case_prod_beta nth_append split: option.splits)
  have own: "\<exists>d'. fst (cohort_retention_analysis_on h data time_period) ! data = Table d' \<and>
      rows d' = rows d \<and>
      (\<forall>b. to_period time_period = Some b \<longrightarrow>
         col_cohort d' = Some (map (\<lambda>r. b (first_purchase (rows d) (user_id r))) (rows d)) \<and>
         col_period d' =
           Some (map (\<lambda>r. b (transaction_date r) - b (first_purchase (rows d) (user_id r)))
                   (rows d)))"
  proof (cases "to_period time_period")
    case None
    then have "fst (cohort_retention_analysis_on h data time_period) ! data = Table d"
      using ref by (simp add: cohort_retention_analysis_on_def look assign_def to_datetime_rows)
    then show ?thesis using None by simp
  next
    case (Some b)
    let ?d' = "fst (cohort_retention b d)"
    have "fst (cohort_retention_analysis_on h data time_period) ! data = Table ?d'"
      using ref
      by (simp add: cohort_retention_analysis_on_def look assign_def to_datetime_rows Some
          new_object_def case_prod_beta Let_def nth_append)
    moreover have "rows ?d' = rows d" by (simp add: cohort_retention_def Let_def)
    moreover have "col_cohort ?d' = Some (map (\<lambda>r. b (first_purchase (rows d) (user_id r))) (rows d))"
      by (simp add: cohort_retention_def Let_def)
    moreover have "col_period ?d' =
        Some (map (\<lambda>r. b (transaction_date r) - b (first_purchase (rows d) (user_id r))) (rows d))"
      by (simp add: cohort_retention_def Let_def)
    ultimately show ?thesis using Some by simp
  qed
  show ?thesis using a b c fa fb fc fd others own by (intro conjI)
qed

text \<open>What the helpers on the heap return is what the functions above return.\<close>

lemma remove_outliers_zscore_on_result:
  assumes "lookup h data = Some (Table d)"
    and "snd (remove_outliers_zscore d column threshold) = Inr out"
  shows "remove_outliers_zscore_on h data column threshold = (h @ [Table out], Inr (length h))"
  using assms
  by (auto simp: remove_outliers_zscore_on_def remove_outliers_zscore_def new_object_def
      split: sum.splits series.splits)

lemma top_categories_on_result:
  assumes "lookup h data = Some (Table d)" and "snd (top_categories d top_n) = Inr out"
  shows "top_categories_on h data top_n =
           (h @ [Categories (groupby_sum item_category (rows d)), Categories out],
            Inr (Suc (length h)))"
  using assms by (auto simp: top_categories_on_def top_categories_def new_object_def Let_def)

lemma customer_segmentation_on_result:
  assumes "lookup h data = Some (Table d)" and "snd (customer_segmentation d) = Inr out"
  shows "customer_segmentation_on h data =
           (h @ [Spending (map (\<lambda>s. (us_user_id s, us_total_amount s)) out)
                   (Some (map segment out))],
            Inr (length h))"
  using assms
  by (auto simp: customer_segmentation_on_def customer_segmentation_def new_object_def
      assign_def Let_def comp_def case_prod_beta)

lemma cohort_retention_analysis_on_result:
  assumes "data < length h" and "h ! data = Table d"
    and "cohort_retention_analysis d time_period = (d', Inr out)"
  shows "cohort_retention_analysis_on h data time_period =
           (h[data := Table d'] @
              [Retention (map (\<lambda>r. (cohort r, period r, retained_users r, cohort_size r)) out)
                 (Some (map retention_rate out))],
            Inr (length h))"
proof -
  have look: "lookup h data = Some (Table d)" using assms(1,2) by (simp add: lookup_def)
  from assms(3) obtain b where b: "to_period time_period = Some b"
    and c: "cohort_retention b d = (d', out)"
    by (auto simp: cohort_retention_analysis_def split: option.splits prod.splits)
  show ?thesis
    by (simp add: cohort_retention_analysis_on_def look to_datetime_rows b c assign_def
        new_object_def Let_def)
qed

theorem input_table_after_call_witness:
  "(0::nat) < length [Table sample_sales] \<and>
   [Table sample_sales] ! 0 = Table sample_sales \<and>
   top_categories_on [Table sample_sales] 0 1 =
     ([Table sample_sales, Categories [(''a'', 12), (''b'', 10)], Categories [(''a'', 12)]],
      Inr 2) \<and>
   cohort_retention_analysis_on [Table sample_sales] 0 ''M'' =
     ([Table (sample_sales\<lparr>col_cohort := Some [612, 612, 612], col_period := Some [0, 0, 1]\<rparr>),
       Retention [(612, 0, 2, 2), (612, 1, 1, 2)] (Some [100, 50])],
      Inr 1)"
proof -
  have ref: "(0::nat) < length [Table sample_sales]" by simp
  have tab: "[Table sample_sales] ! 0 = Table sample_sales" by simp
  note after = input_table_after_call[OF ref tab, of "''quantity''" 3 1 "''M''"]
  have look: "lookup [Table sample_sales] 0 = Some (Table sample_sales)"
    by (simp add: lookup_def)
  have g: "groupby_sum item_category (rows sample_sales) = [(''a'', 12), (''b'', 10)]"
    by (simp add: groupby_sum_def unique_sorted_def sample_sales_def transaction_def)
  have top: "snd (top_categories sample_sales 1) = Inr [(''a'', 12)]"
    by (simp add: top_categories_def head_def sample_sales_by_category)
  have t: "top_categories_on [Table sample_sales] 0 1 =
     ([Table sample_sales, Categories [(''a'', 12), (''b'', 10)], Categories [(''a'', 12)]],
      Inr 2)"
    using top_categories_on_result[OF look top] g by simp
  have c: "cohort_retention_analysis_on [Table sample_sales] 0 ''M'' =
     ([Table (sample_sales\<lparr>col_cohort := Some [612, 612, 612], col_period := Some [0, 0, 1]\<rparr>),
       Retention [(612, 0, 2, 2), (612, 1, 1, 2)] (Some [100, 50])],
      Inr 1)"
    using cohort_retention_analysis_on_result[OF ref tab sample_sales_retention] by simp
  from after have "take (length [Table sample_sales]) (fst (top_categories_on [Table sample_sales] 0 1))
      = [Table sample_sales]" by blast
  then show ?thesis using ref tab t c by (intro conjI)
qed

text \<open>
  C5 as stated has no component change its input. After the monthly analysis the caller's
  table has a \<^verbatim>\<open>cohort\<close> column that it did not have before.
\<close>

theorem cohort_retention_mutates_counterexample:
  "fst (cohort_retention_analysis sample_sales ''M'') \<noteq> sample_sales \<and>
   col_cohort sample_sales = None \<and>
   col_cohort (fst (cohort_retention_analysis sample_sales ''M'')) = Some [612, 612, 612]"
proof -
  have a: "col_cohort sample_sales = None" by (simp add: sample_sales_def)
  have b: "col_cohort (fst (cohort_retention_analysis sample_sales ''M'')) = Some [612, 612, 612]"
    using sample_sales_retention by simp
  from a b have "fst (cohort_retention_analysis sample_sales ''M'') \<noteq> sample_sales" by auto
  then show ?thesis using a b by blast
qed

end
